theory Spec2Isabelle
  imports Main "HOL-Library.Word" "HOL-Library.Multiset"
begin

unbundle bit_operations_syntax

section \<open>The Python 2 runtime the module relies on\<close>

text \<open>
  \<^verbatim>\<open>analyticsclient/course.py\<close> is Python 2 code (\<^verbatim>\<open>unicode\<close>, \<^verbatim>\<open>urllib.urlencode\<close>).
  Its arguments are documented as \<^verbatim>\<open>str\<close>, with \<^verbatim>\<open>None\<close> for an argument that is
  absent. A Python 2 \<^verbatim>\<open>str\<close> is a byte string, which is what a HOL \<open>string\<close> is.
  Arguments are the values bound to the parameters when the body starts, that is
  after Python has filled in the defaults (\<^verbatim>\<open>AT.ANY\<close>, \<^verbatim>\<open>DF.JSON\<close>, \<^verbatim>\<open>None\<close>); the
  modules holding these two constants are not part of the sources.
\<close>

datatype py_value = PyNone | PyStr string

text \<open>Truth value testing, \<^verbatim>\<open>if x:\<close> and \<^verbatim>\<open>if not x:\<close>.\<close>

fun truthy :: "py_value \<Rightarrow> bool" where
  "truthy PyNone = False"
| "truthy (PyStr s) = (s \<noteq> [])"

text \<open>\<^verbatim>\<open>str(x)\<close>, also what \<^verbatim>\<open>'{0}'.format(x)\<close> renders for these values.\<close>

fun py_str :: "py_value \<Rightarrow> string" where
  "py_str PyNone = ''None''"
| "py_str (PyStr s) = s"

text \<open>
  The exceptions that can leave a method: the one the module raises itself, the two
  that the implicit ASCII codec raises, and whatever the client raises (\<open>Raised\<close>; the
  client may also raise \<open>InvalidRequestError\<close> itself, on a 400 response).
\<close>

datatype 'x exn =
    InvalidRequestError string
  | UnicodeDecodeError
  | UnicodeEncodeError
  | Raised 'x

definition is_ascii :: "char \<Rightarrow> bool" where
  "is_ascii c = (of_char c < (128 :: nat))"

text \<open>
  \<^verbatim>\<open>unicode(x)\<close>: a byte string is decoded with the ASCII codec, which rejects every
  byte above 127. The result is text; it is held here as the list of its code points.
\<close>

fun unicode :: "py_value \<Rightarrow> 'x exn + string" where
  "unicode PyNone = Inr ''None''"
| "unicode (PyStr s) = (if list_all is_ascii s then Inr s else Inl UnicodeDecodeError)"

text \<open>
  A \<^verbatim>\<open>unicode\<close> argument of \<^verbatim>\<open>str.format\<close>: the template is a byte string, so the
  argument is encoded with the ASCII codec.
\<close>

definition format_unicode :: "string \<Rightarrow> 'x exn + string" where
  "format_unicode u = (if list_all is_ascii u then Inr u else Inl UnicodeEncodeError)"

subsection \<open>Dictionaries\<close>

text \<open>
  \<^verbatim>\<open>urlencode\<close> walks \<^verbatim>\<open>params.items()\<close>, and the order of the items of a Python 2
  dictionary is the order of the slots of its hash table. So the table is modelled:
  eight slots (the table of every dictionary of at most five keys), the string hash of
  CPython 2.7 on a 64-bit \<^verbatim>\<open>long\<close> (hash randomisation is off unless asked for), and open
  addressing with the probe sequence of \<^verbatim>\<open>lookdict\<close>.
\<close>

definition string_hash :: "string \<Rightarrow> 64 word" where
  "string_hash s =
     (if s = [] then 0
      else let x = fold (\<lambda>c x. (1000003 * x) XOR of_char c) s (push_bit 7 (of_char (hd s)));
               x = x XOR of_nat (length s)
           in if x = - 1 then - 2 else x)"

type_synonym py_dict = "(string \<times> py_value) option list"

definition dict_new :: py_dict where
  "dict_new = [None, None, None, None, None, None, None, None]"

text \<open>
  The slot for a key: the first slot of the probe sequence that is free or holds the
  key. The first argument bounds the number of probes; \<open>lookdict_total\<close> below shows
  that the bound used by \<open>dict_setitem\<close> is never reached in a table with a free slot.
\<close>

fun lookdict :: "nat \<Rightarrow> py_dict \<Rightarrow> string \<Rightarrow> 64 word \<Rightarrow> 64 word \<Rightarrow> nat option" where
  "lookdict 0 d key i perturb = None"
| "lookdict (Suc n) d key i perturb =
     (case d ! unat (i AND 7) of
        None \<Rightarrow> Some (unat (i AND 7))
      | Some (k, v) \<Rightarrow>
          if k = key then Some (unat (i AND 7))
          else lookdict n d key (push_bit 2 i + i + perturb + 1) (drop_bit 5 perturb))"

text \<open>
  Once \<open>perturb\<close> has been shifted down to zero, the slot probed after slot \<open>a\<close>.
\<close>

definition probe_next :: "nat \<Rightarrow> nat" where
  "probe_next a = (5 * a + 1) mod 8"

text \<open>\<^verbatim>\<open>d[key] = v\<close>\<close>

definition dict_setitem :: "py_dict \<Rightarrow> string \<Rightarrow> py_value \<Rightarrow> py_dict" where
  "dict_setitem d key v =
     (case lookdict 32 d key (string_hash key AND 7) (string_hash key) of
        Some slot \<Rightarrow> d[slot := Some (key, v)]
      | None \<Rightarrow> d)"

text \<open>\<^verbatim>\<open>d.items()\<close>: the entries in slot order.\<close>

fun dict_items :: "py_dict \<Rightarrow> (string \<times> py_value) list" where
  "dict_items [] = []"
| "dict_items (None # d) = dict_items d"
| "dict_items (Some kv # d) = kv # dict_items d"

subsection \<open>urllib\<close>

definition always_safe :: string where
  "always_safe = ''ABCDEFGHIJKLMNOPQRSTUVWXYZabcdefghijklmnopqrstuvwxyz0123456789_.-''"

definition hex_digit :: "nat \<Rightarrow> char" where
  "hex_digit n = ''0123456789ABCDEF'' ! n"

text \<open>The entry of \<^verbatim>\<open>_safe_map\<close> for a byte, updated with the caller's safe characters.\<close>

definition safe_map :: "string \<Rightarrow> char \<Rightarrow> string" where
  "safe_map safe c =
     (if c \<in> set (always_safe @ safe) then [c]
      else [CHR ''%'', hex_digit (of_char c div 16), hex_digit (of_char c mod 16)])"

definition quote :: "string \<Rightarrow> string \<Rightarrow> string" where
  "quote s safe = concat (map (safe_map safe) s)"

definition quote_plus :: "string \<Rightarrow> string" where
  "quote_plus s =
     (if CHR '' '' \<in> set s
      then map (\<lambda>c. if c = CHR '' '' then CHR ''+'' else c) (quote s '' '')
      else quote s [])"

text \<open>\<^verbatim>\<open>sep.join(l)\<close>\<close>

fun join :: "string \<Rightarrow> string list \<Rightarrow> string" where
  "join sep [] = []"
| "join sep [x] = x"
| "join sep (x # y # ys) = x @ sep @ join sep (y # ys)"

text \<open>\<^verbatim>\<open>urllib.urlencode(query)\<close> of a dictionary, with \<^verbatim>\<open>doseq\<close> left at 0.\<close>

definition urlencode :: "py_dict \<Rightarrow> string" where
  "urlencode query =
     join ''&'' (map (\<lambda>(k, v). quote_plus k @ ''='' @ quote_plus (py_str v)) (dict_items query))"

section \<open>The client and the program state\<close>

text \<open>
  The client is the collaborator that performs the request. Its \<^verbatim>\<open>get\<close> is a
  transition on the world outside the module, returning the decoded response or
  raising. The world is reached through the client only.
\<close>

record ('x, 'r, 'w) Client =
  get :: "string \<Rightarrow> py_value \<Rightarrow> 'w \<Rightarrow> ('x exn + 'r) \<times> 'w"

record ('x, 'r, 'w) Course =
  client :: "('x, 'r, 'w) Client"
  course_id :: string

text \<open>
  The state a method runs in: the instance it is called on, the world, and two logs
  that make the effects countable, the calls of \<^verbatim>\<open>client.get\<close> and the warnings
  issued.
\<close>

record ('x, 'r, 'w) state =
  self :: "('x, 'r, 'w) Course"
  calls :: "(string \<times> py_value) list"
  warnings :: "(string \<times> string) list"
  world :: 'w

text \<open>\<^verbatim>\<open>self.client.get(path, data_format=data_format)\<close>\<close>

definition client_get ::
  "string \<Rightarrow> py_value \<Rightarrow> ('x, 'r, 'w) state \<Rightarrow> ('x exn + 'r) \<times> ('x, 'r, 'w) state" where
  "client_get path data_format st =
     (case get (client (self st)) path data_format (world st) of
        (res, w) \<Rightarrow> (res, st\<lparr>calls := calls st @ [(path, data_format)], world := w\<rparr>))"

text \<open>
  \<^verbatim>\<open>warnings.warn(message, category)\<close> under the default filters, which do not turn a
  warning into an exception.
\<close>

definition warn :: "string \<Rightarrow> string \<Rightarrow> ('x, 'r, 'w) state \<Rightarrow> ('x, 'r, 'w) state" where
  "warn message category st = st\<lparr>warnings := warnings st @ [(message, category)]\<rparr>"

section \<open>Course\<close>

text \<open>\<^verbatim>\<open>Course.__init__\<close>\<close>

definition Course_init :: "('x, 'r, 'w) Client \<Rightarrow> py_value \<Rightarrow> 'x exn + ('x, 'r, 'w) Course" where
  "Course_init cl cid =
     (case unicode cid of
        Inl e \<Rightarrow> Inl e
      | Inr u \<Rightarrow> Inr \<lparr>client = cl, course_id = u\<rparr>)"

definition enrollment ::
  "py_value \<Rightarrow> py_value \<Rightarrow> py_value \<Rightarrow> py_value \<Rightarrow> ('x, 'r, 'w) state
     \<Rightarrow> ('x exn + 'r) \<times> ('x, 'r, 'w) state" where
  "enrollment demographic start_date end_date data_format st =
     (case format_unicode (course_id (self st)) of
        Inl e \<Rightarrow> (Inl e, st)
      | Inr cid \<Rightarrow>
          let path = ''courses/'' @ cid @ ''/enrollment/'';
              path = (if truthy demographic then path @ py_str demographic @ ''/'' else path);
              params = dict_new;
              params = (if truthy start_date
                        then dict_setitem params ''start_date'' start_date else params);
              params = (if truthy end_date
                        then dict_setitem params ''end_date'' end_date else params);
              querystring = urlencode params;
              path = (if querystring \<noteq> [] then path @ ''?'' @ querystring else path)
          in client_get path data_format st)"

definition activity ::
  "py_value \<Rightarrow> py_value \<Rightarrow> py_value \<Rightarrow> py_value \<Rightarrow> ('x, 'r, 'w) state
     \<Rightarrow> ('x exn + 'r) \<times> ('x, 'r, 'w) state" where
  "activity activity_type start_date end_date data_format st =
     (if \<not> truthy activity_type
      then (Inl (InvalidRequestError ''activity_type cannot be None.''), st)
      else
        let params = dict_setitem dict_new ''activity_type'' activity_type;
            params = (if truthy start_date
                      then dict_setitem params ''start_date'' start_date else params);
            params = (if truthy end_date
                      then dict_setitem params ''end_date'' end_date else params)
        in case format_unicode (course_id (self st)) of
             Inl e \<Rightarrow> (Inl e, st)
           | Inr cid \<Rightarrow>
               let path = ''courses/'' @ cid @ ''/activity/'';
                   querystring = urlencode params;
                   path = path @ ''?'' @ querystring
               in client_get path data_format st)"

definition recent_activity ::
  "py_value \<Rightarrow> py_value \<Rightarrow> ('x, 'r, 'w) state \<Rightarrow> ('x exn + 'r) \<times> ('x, 'r, 'w) state" where
  "recent_activity activity_type data_format st =
     (let st = warn ''recent_activity has been deprecated! Use activity instead.''
                 ''DeprecationWarning'' st
      in case format_unicode (course_id (self st)) of
           Inl e \<Rightarrow> (Inl e, st)
         | Inr cid \<Rightarrow>
             let path = ''courses/'' @ cid @ ''/recent_activity/?activity_type=''
                          @ py_str activity_type
             in client_get path data_format st)"

definition problems ::
  "py_value \<Rightarrow> ('x, 'r, 'w) state \<Rightarrow> ('x exn + 'r) \<times> ('x, 'r, 'w) state" where
  "problems data_format st =
     (case format_unicode (course_id (self st)) of
        Inl e \<Rightarrow> (Inl e, st)
      | Inr cid \<Rightarrow>
          let path = ''courses/'' @ cid @ ''/problems/''
          in client_get path data_format st)"

definition video_settings ::
  "py_value \<Rightarrow> ('x, 'r, 'w) state \<Rightarrow> ('x exn + 'r) \<times> ('x, 'r, 'w) state" where
  "video_settings data_format st =
     (case format_unicode (course_id (self st)) of
        Inl e \<Rightarrow> (Inl e, st)
      | Inr cid \<Rightarrow>
          let path = ''courses/'' @ cid @ ''/videos/settings/''
          in client_get path data_format st)"

definition video_summary ::
  "py_value \<Rightarrow> py_value \<Rightarrow> py_value \<Rightarrow> py_value \<Rightarrow> ('x, 'r, 'w) state
     \<Rightarrow> ('x exn + 'r) \<times> ('x, 'r, 'w) state" where
  "video_summary video_id start_date end_date data_format st =
     (case format_unicode (course_id (self st)) of
        Inl e \<Rightarrow> (Inl e, st)
      | Inr cid \<Rightarrow>
          let path = ''courses/'' @ cid @ ''/videos/'' @ py_str video_id @ ''/summary/'';
              params = dict_new;
              params = (if truthy start_date
                        then dict_setitem params ''start_date'' start_date else params);
              params = (if truthy end_date
                        then dict_setitem params ''end_date'' end_date else params);
              querystring = urlencode params;
              path = (if querystring \<noteq> [] then path @ ''?'' @ querystring else path)
          in client_get path data_format st)"

definition videos ::
  "py_value \<Rightarrow> py_value \<Rightarrow> py_value \<Rightarrow> ('x, 'r, 'w) state
     \<Rightarrow> ('x exn + 'r) \<times> ('x, 'r, 'w) state" where
  "videos start_date end_date data_format st =
     (case format_unicode (course_id (self st)) of
        Inl e \<Rightarrow> (Inl e, st)
      | Inr cid \<Rightarrow>
          let path = ''courses/'' @ cid @ ''/videos/'';
              params = dict_new;
              params = (if truthy start_date
                        then dict_setitem params ''start_date'' start_date else params);
              params = (if truthy end_date
                        then dict_setitem params ''end_date'' end_date else params);
              querystring = urlencode params;
              path = (if querystring \<noteq> [] then path @ ''?'' @ querystring else path)
          in client_get path data_format st)"

definition video_seek_times ::
  "py_value \<Rightarrow> py_value \<Rightarrow> py_value \<Rightarrow> py_value \<Rightarrow> ('x, 'r, 'w) state
     \<Rightarrow> ('x exn + 'r) \<times> ('x, 'r, 'w) state" where
  "video_seek_times video_id start_date end_date data_format st =
     (case format_unicode (course_id (self st)) of
        Inl e \<Rightarrow> (Inl e, st)
      | Inr cid \<Rightarrow>
          let path = ''courses/'' @ cid @ ''/videos/'' @ py_str video_id @ ''/seek_times/'';
              params = dict_new;
              params = (if truthy start_date
                        then dict_setitem params ''start_date'' start_date else params);
              params = (if truthy end_date
                        then dict_setitem params ''end_date'' end_date else params);
              querystring = urlencode params;
              path = (if querystring \<noteq> [] then path @ ''?'' @ querystring else path)
          in client_get path data_format st)"

definition on_campus_data ::
  "py_value \<Rightarrow> py_value \<Rightarrow> py_value \<Rightarrow> ('x, 'r, 'w) state
     \<Rightarrow> ('x exn + 'r) \<times> ('x, 'r, 'w) state" where
  "on_campus_data start_date end_date data_format st =
     (case format_unicode (course_id (self st)) of
        Inl e \<Rightarrow> (Inl e, st)
      | Inr cid \<Rightarrow>
          let path = ''courses/'' @ cid @ ''/on_campus_student_data/'';
              params = dict_new;
              params = (if truthy start_date
                        then dict_setitem params ''start_date'' start_date else params);
              params = (if truthy end_date
                        then dict_setitem params ''end_date'' end_date else params);
              querystring = urlencode params;
              path = (if querystring \<noteq> [] then path @ ''?'' @ querystring else path)
          in client_get path data_format st)"

section \<open>Vocabulary of the properties\<close>

text \<open>
  \<open>delegates path data_format st out\<close>: the outcome \<open>out\<close> of a method started in
  \<open>st\<close> is that of one call \<^verbatim>\<open>client.get(path, data_format)\<close>: the method returns or
  raises what that call returns or raises, the world is the one that call leaves, and the
  log of calls has grown by this one call.
\<close>

definition delegates ::
  "string \<Rightarrow> py_value \<Rightarrow> ('x, 'r, 'w) state \<Rightarrow> ('x exn + 'r) \<times> ('x, 'r, 'w) state \<Rightarrow> bool" where
  "delegates path data_format st out =
     (fst out = fst (get (client (self st)) path data_format (world st))
      \<and> world (snd out) = snd (get (client (self st)) path data_format (world st))
      \<and> calls (snd out) = calls st @ [(path, data_format)])"

text \<open>The state in which nothing has been called yet on an instance.\<close>

definition fresh :: "('x, 'r, 'w) Course \<Rightarrow> 'w \<Rightarrow> ('x, 'r, 'w) state" where
  "fresh c w = \<lparr>self = c, calls = [], warnings = [], world = w\<rparr>"

text \<open>
  A client for concrete runs, in the manner of the registered URIs of the tests: it
  answers every request with the path it was asked for and counts the requests.
\<close>

definition test_client :: "(unit, string, nat) Client" where
  "test_client = \<lparr>get = (\<lambda>path data_format w. (Inr path, Suc w))\<rparr>"

text \<open>
  The unreserved characters of a URI (RFC 3986, section 2.3): letters, digits,
  hyphen, period, underscore and tilde.
\<close>

definition unreserved :: string where
  "unreserved = ''ABCDEFGHIJKLMNOPQRSTUVWXYZabcdefghijklmnopqrstuvwxyz0123456789-._~''"

text \<open>
  The instance of the tests (\<^verbatim>\<open>setUp\<close>), fresh, on the test client.
\<close>

definition demo_course :: "(unit, string, nat) Course" where
  "demo_course = \<lparr>client = test_client, course_id = ''edX/DemoX/Demo_Course''\<rparr>"

definition demo_state :: "(unit, string, nat) state" where
  "demo_state = fresh demo_course 0"

text \<open>
  The closed form of what the methods with a date range append to the path:
  \<^verbatim>\<open>[?start_date=D][&end_date=D]\<close>.
\<close>

definition date_suffix :: "py_value \<Rightarrow> py_value \<Rightarrow> string" where
  "date_suffix sd ed =
     (if truthy sd
      then (if truthy ed
            then ''?start_date='' @ quote_plus (py_str sd) @ ''&end_date='' @ quote_plus (py_str ed)
            else ''?start_date='' @ quote_plus (py_str sd))
      else (if truthy ed then ''?end_date='' @ quote_plus (py_str ed) else []))"

section \<open>The runtime on the keys of this module\<close>

text \<open>
  The three keys the module stores have their home slots at 5, 6 and 7, so that no
  insertion ever probes a second slot, and the items come out as \<^verbatim>\<open>start_date\<close>,
  \<^verbatim>\<open>end_date\<close>, \<^verbatim>\<open>activity_type\<close>, whatever the order of insertion.
\<close>

lemma slot_start_date: "unat (string_hash ''start_date'' AND 7) = 5"
  by code_simp

lemma slot_end_date: "unat (string_hash ''end_date'' AND 7) = 6"
  by code_simp

lemma slot_activity_type: "unat (string_hash ''activity_type'' AND 7) = 7"
  by code_simp

lemma lookdict_free:
  "d ! unat (h AND 7) = None \<Longrightarrow> lookdict 32 d key (h AND 7) h = Some (unat (h AND 7))"
proof -
  assume a: "d ! unat (h AND 7) = None"
  have e: "(h AND 7) AND 7 = h AND 7"
    by (simp add: and.assoc)
  have "lookdict (Suc 31) d key (h AND 7) h = Some (unat (h AND 7))"
    unfolding lookdict.simps e using a by simp
  then show ?thesis by simp
qed

lemma setitem_start:
  "dict_setitem [a0, a1, a2, a3, a4, None, a6, a7] ''start_date'' v
     = [a0, a1, a2, a3, a4, Some (''start_date'', v), a6, a7]"
  unfolding dict_setitem_def
  by (subst lookdict_free) (simp_all add: slot_start_date)

lemma setitem_end:
  "dict_setitem [a0, a1, a2, a3, a4, a5, None, a7] ''end_date'' v
     = [a0, a1, a2, a3, a4, a5, Some (''end_date'', v), a7]"
  unfolding dict_setitem_def
  by (subst lookdict_free) (simp_all add: slot_end_date)

lemma setitem_activity:
  "dict_setitem [a0, a1, a2, a3, a4, a5, a6, None] ''activity_type'' v
     = [a0, a1, a2, a3, a4, a5, a6, Some (''activity_type'', v)]"
  unfolding dict_setitem_def
  by (subst lookdict_free) (simp_all add: slot_activity_type)

lemma quote_plus_keys:
  "quote_plus ''start_date'' = ''start_date''"
  "quote_plus ''end_date'' = ''end_date''"
  "quote_plus ''activity_type'' = ''activity_type''"
  by (simp_all add: quote_plus_def quote_def safe_map_def always_safe_def)

lemmas dict_simps = dict_new_def setitem_start setitem_end setitem_activity urlencode_def
  quote_plus_keys

subsection \<open>The bound on the number of probes\<close>

text \<open>
  After 24 probes \<open>perturb\<close> is zero, since it has 64 bits and loses five at each
  probe; from then on the probe sequence is \<open>probe_next\<close>, which runs through the eight
  slots in one cycle. So 32 probes find the free slot of a table that has one, and
  \<open>dict_setitem\<close> never takes its second branch on such a table.
\<close>

lemma and_7_mod: "unat ((w :: 64 word) AND 7) = unat w mod 8"
proof -
  have "(7 :: 64 word) = mask 3"
    by (simp add: mask_eq_exp_minus_1)
  then have "w AND 7 = take_bit 3 w"
    by (simp add: take_bit_eq_mask)
  then show ?thesis
    by (simp add: unsigned_take_bit_eq take_bit_eq_mod unat_mod)
qed

lemma probe_step:
  "unat ((push_bit 2 i + i + 1 :: 64 word) AND 7) = (5 * unat (i AND 7) + 1) mod 8"
proof -
  have "push_bit 2 i + i + 1 = 5 * i + 1"
    by (simp add: push_bit_eq_mult)
  moreover have "unat (5 * i + 1) mod 8 = (5 * unat i + 1) mod 8"
  proof -
    have "unat (5 * i + 1) = (5 * unat i + 1) mod 2 ^ 64"
      by (simp add: unat_word_ariths mod_simps)
    moreover have "(5 * unat i + 1) mod 2 ^ 64 mod 8 = (5 * unat i + 1) mod 8"
      by (rule mod_mod_cancel) simp
    ultimately show ?thesis by simp
  qed
  moreover have "(5 * unat i + 1) mod 8 = (5 * (unat i mod 8) + 1) mod 8"
    by (metis mod_add_left_eq mod_mult_right_eq)
  ultimately show ?thesis
    by (simp add: and_7_mod)
qed

lemma lookdict_cover:
  "lookdict n d key i 0 = None \<Longrightarrow> j < n
   \<Longrightarrow> d ! ((probe_next ^^ j) (unat (i AND 7))) \<noteq> None"
proof (induction n arbitrary: i j)
  case 0
  then show ?case by simp
next
  case (Suc n)
  from Suc.prems(1) have here: "d ! unat (i AND 7) \<noteq> None"
    and rest: "lookdict n d key (push_bit 2 i + i + 1) 0 = None"
    by (simp_all split: option.splits prod.splits if_splits)
  show ?case
  proof (cases j)
    case 0
    then show ?thesis using here by simp
  next
    case (Suc j')
    then have "j' < n"
      using Suc.prems(2) by simp
    have ps: "unat ((push_bit 2 i + i + 1) AND 7) = probe_next (unat (i AND 7))"
      by (simp only: probe_step probe_next_def)
    have "d ! ((probe_next ^^ j') (probe_next (unat (i AND 7)))) \<noteq> None"
      using Suc.IH [OF rest \<open>j' < n\<close>] unfolding ps .
    moreover have "(probe_next ^^ j) (unat (i AND 7))
                   = (probe_next ^^ j') (probe_next (unat (i AND 7)))"
      unfolding \<open>j = Suc j'\<close> by (simp add: funpow_swap1)
    ultimately show ?thesis
      by simp
  qed
qed

lemma lookdict_8:
  assumes "lookdict 8 d key i 0 = None" and "s < 8"
  shows "d ! s \<noteq> None"
proof -
  have "unat (i AND 7) < 8"
    by (simp add: and_7_mod)
  then consider "unat (i AND 7) = 0" | "unat (i AND 7) = 1" | "unat (i AND 7) = 2"
    | "unat (i AND 7) = 3" | "unat (i AND 7) = 4" | "unat (i AND 7) = 5"
    | "unat (i AND 7) = 6" | "unat (i AND 7) = 7"
    by linarith
  then have "d ! 0 \<noteq> None \<and> d ! 1 \<noteq> None \<and> d ! 2 \<noteq> None \<and> d ! 3 \<noteq> None
             \<and> d ! 4 \<noteq> None \<and> d ! 5 \<noteq> None \<and> d ! 6 \<noteq> None \<and> d ! 7 \<noteq> None"
    using lookdict_cover [OF assms(1), of 0]
      lookdict_cover [OF assms(1), of "Suc 0"]
      lookdict_cover [OF assms(1), of "Suc (Suc 0)"]
      lookdict_cover [OF assms(1), of "Suc (Suc (Suc 0))"]
      lookdict_cover [OF assms(1), of "Suc (Suc (Suc (Suc 0)))"]
      lookdict_cover [OF assms(1), of "Suc (Suc (Suc (Suc (Suc 0))))"]
      lookdict_cover [OF assms(1), of "Suc (Suc (Suc (Suc (Suc (Suc 0)))))"]
      lookdict_cover [OF assms(1), of "Suc (Suc (Suc (Suc (Suc (Suc (Suc 0))))))"]
    by cases (simp_all add: probe_next_def)
  moreover have "s = 0 \<or> s = 1 \<or> s = 2 \<or> s = 3 \<or> s = 4 \<or> s = 5 \<or> s = 6 \<or> s = 7"
    using assms(2) by linarith
  ultimately show ?thesis
    by blast
qed

lemma lookdict_perturb:
  "drop_bit (5 * m) p = 0 \<Longrightarrow> lookdict (m + 8) d key i p = None
   \<Longrightarrow> \<exists>j. lookdict 8 d key j 0 = None"
proof (induction m arbitrary: i p)
  case 0
  then show ?case by auto
next
  case (Suc m)
  have "drop_bit (5 * m) (drop_bit 5 p) = 0"
    using Suc.prems(1) by (simp add: drop_bit_drop_bit add.commute)
  moreover have "lookdict (m + 8) d key (push_bit 2 i + i + p + 1) (drop_bit 5 p) = None"
  proof -
    have "Suc m + 8 = Suc (m + 8)"
      by simp
    then have "lookdict (Suc (m + 8)) d key i p = None"
      using Suc.prems(2) by simp
    then show ?thesis
      unfolding lookdict.simps by (simp split: option.splits prod.splits if_splits)
  qed
  ultimately show ?case
    by (rule Suc.IH)
qed

lemma lookdict_total:
  assumes "length d = 8" and "None \<in> set d"
  shows "lookdict 32 d key i perturb \<noteq> None"
proof
  assume n: "lookdict 32 d key i perturb = None"
  have "drop_bit (5 * 24) perturb = 0"
    by (simp add: drop_bit_eq_zero_iff_not_bit_last) 
  moreover have "lookdict (24 + 8) d key i perturb = None"
    using n by simp
  ultimately obtain j where "lookdict 8 d key j 0 = None"
    using lookdict_perturb by blast
  then have "\<And>s. s < 8 \<Longrightarrow> d ! s \<noteq> None"
    by (rule lookdict_8)
  then have "None \<notin> set d"
    using assms(1) by (auto simp: in_set_conv_nth)
  with assms(2) show False
    by simp
qed

section \<open>What each method asks the client for\<close>

text \<open>
  The constructor leaves an ASCII course id behind, so that no method of an instance it
  built raises on formatting its path; each then is one call of \<open>client_get\<close>.
\<close>

lemma init_ascii:
  "Course_init cl cid = Inr c \<Longrightarrow> list_all is_ascii (course_id c)"
  by (cases cid) (auto simp: Course_init_def is_ascii_def split: if_splits)

lemma init_course_id:
  "Course_init cl (PyStr s) = Inr c \<Longrightarrow> course_id c = s"
  by (auto simp: Course_init_def split: if_splits)

lemma client_get_delegates: "delegates path fmt st (client_get path fmt st)"
  by (simp add: delegates_def client_get_def split: prod.split)

lemma client_get_warn_delegates: "delegates path fmt st (client_get path fmt (warn m c st))"
  by (simp add: delegates_def client_get_def warn_def split: prod.split)

lemma enrollment_call:
  assumes "list_all is_ascii (course_id (self st))"
  shows "enrollment dm sd ed fmt st =
         client_get (''courses/'' @ course_id (self st) @ ''/enrollment/''
                       @ (if truthy dm then py_str dm @ ''/'' else [])
                       @ date_suffix sd ed) fmt st"
  unfolding enrollment_def Let_def format_unicode_def date_suffix_def
  by (cases "truthy sd"; cases "truthy ed"; simp add: assms dict_simps)

lemma video_summary_call:
  assumes "list_all is_ascii (course_id (self st))"
  shows "video_summary vid sd ed fmt st =
         client_get (''courses/'' @ course_id (self st) @ ''/videos/'' @ py_str vid @ ''/summary/''
                       @ date_suffix sd ed) fmt st"
  unfolding video_summary_def Let_def format_unicode_def date_suffix_def
  by (cases "truthy sd"; cases "truthy ed"; simp add: assms dict_simps)

lemma videos_call:
  assumes "list_all is_ascii (course_id (self st))"
  shows "videos sd ed fmt st =
         client_get (''courses/'' @ course_id (self st) @ ''/videos/'' @ date_suffix sd ed) fmt st"
  unfolding videos_def Let_def format_unicode_def date_suffix_def
  by (cases "truthy sd"; cases "truthy ed"; simp add: assms dict_simps)

lemma video_seek_times_call:
  assumes "list_all is_ascii (course_id (self st))"
  shows "video_seek_times vid sd ed fmt st =
         client_get (''courses/'' @ course_id (self st) @ ''/videos/'' @ py_str vid
                       @ ''/seek_times/'' @ date_suffix sd ed) fmt st"
  unfolding video_seek_times_def Let_def format_unicode_def date_suffix_def
  by (cases "truthy sd"; cases "truthy ed"; simp add: assms dict_simps)

lemma on_campus_data_call:
  assumes "list_all is_ascii (course_id (self st))"
  shows "on_campus_data sd ed fmt st =
         client_get (''courses/'' @ course_id (self st) @ ''/on_campus_student_data/''
                       @ date_suffix sd ed) fmt st"
  unfolding on_campus_data_def Let_def format_unicode_def date_suffix_def
  by (cases "truthy sd"; cases "truthy ed"; simp add: assms dict_simps)

lemma problems_call:
  assumes "list_all is_ascii (course_id (self st))"
  shows "problems fmt st = client_get (''courses/'' @ course_id (self st) @ ''/problems/'') fmt st"
  unfolding problems_def Let_def format_unicode_def by (simp add: assms)

lemma video_settings_call:
  assumes "list_all is_ascii (course_id (self st))"
  shows "video_settings fmt st =
         client_get (''courses/'' @ course_id (self st) @ ''/videos/settings/'') fmt st"
  unfolding video_settings_def Let_def format_unicode_def by (simp add: assms)

lemma recent_activity_call:
  assumes "list_all is_ascii (course_id (self st))"
  shows "recent_activity t fmt st =
         client_get (''courses/'' @ course_id (self st) @ ''/recent_activity/?activity_type=''
                       @ py_str t) fmt
           (warn ''recent_activity has been deprecated! Use activity instead.''
              ''DeprecationWarning'' st)"
  unfolding recent_activity_def Let_def format_unicode_def by (simp add: assms warn_def)

lemma activity_call:
  assumes "list_all is_ascii (course_id (self st))" and "truthy t"
  shows "activity t sd ed fmt st =
         client_get (''courses/'' @ course_id (self st) @ ''/activity/?''
                       @ join ''&'' ((if truthy sd then [''start_date='' @ quote_plus (py_str sd)] else [])
                            @ (if truthy ed then [''end_date='' @ quote_plus (py_str ed)] else [])
                            @ [''activity_type='' @ quote_plus (py_str t)])) fmt st"
  unfolding activity_def Let_def format_unicode_def
  by (cases "truthy sd"; cases "truthy ed"; simp add: assms dict_simps)

lemma activity_raises:
  "\<not> truthy t \<Longrightarrow>
   activity t sd ed fmt st = (Inl (InvalidRequestError ''activity_type cannot be None.''), st)"
  by (simp add: activity_def)

section \<open>The properties\<close>

lemma demo_init:
  "Course_init test_client (PyStr ''edX/DemoX/Demo_Course'') = Inr (self demo_state)"
  by (simp add: Course_init_def demo_state_def fresh_def demo_course_def is_ascii_def)

lemma quote_plus_safe:
  "list_all (\<lambda>c. c \<in> set always_safe) s \<Longrightarrow> quote_plus s = s"
proof -
  assume a: "list_all (\<lambda>c. c \<in> set always_safe) s"
  have sp: "CHR '' '' \<notin> set always_safe"
    by (simp add: always_safe_def)
  from a have "CHR '' '' \<notin> set s"
    using sp by (auto simp: list_all_iff)
  moreover from a have "quote s [] = s"
    by (induction s) (simp_all add: quote_def safe_map_def)
  ultimately show ?thesis
    by (simp add: quote_plus_def)
qed

text \<open>
  C1. On an instance built by the constructor, \<^verbatim>\<open>enrollment\<close> asks the client for the
  path \<^verbatim>\<open>courses/{course_id}/enrollment/\<close>, followed by the demographic segment when a
  demographic is given, followed by the query string. For each of the four combinations
  of \<^verbatim>\<open>start_date\<close> and \<^verbatim>\<open>end_date\<close> (each either \<^verbatim>\<open>None\<close> or empty, or a non-empty
  string) the query string holds exactly the keys supplied, each with its value as
  \<^verbatim>\<open>urlencode\<close> writes it, \<^verbatim>\<open>start_date\<close> before \<^verbatim>\<open>end_date\<close>; when neither is
  supplied nothing is appended, not even the question mark.
\<close>

theorem enrollment_query_string:
  assumes "Course_init cl cid = Inr (self st)"
  shows "delegates
           (''courses/'' @ course_id (self st) @ ''/enrollment/''
              @ (if truthy demographic then py_str demographic @ ''/'' else [])
              @ (if truthy start_date
                 then (if truthy end_date
                       then ''?start_date='' @ quote_plus (py_str start_date)
                              @ ''&end_date='' @ quote_plus (py_str end_date)
                       else ''?start_date='' @ quote_plus (py_str start_date))
                 else (if truthy end_date
                       then ''?end_date='' @ quote_plus (py_str end_date)
                       else [])))
           data_format st
           (enrollment demographic start_date end_date data_format st)"
  unfolding enrollment_call [OF init_ascii [OF assms]] date_suffix_def
  by (rule client_get_delegates)

theorem enrollment_query_string_witness:
  "Course_init test_client (PyStr ''edX/DemoX/Demo_Course'') = Inr (self demo_state)
   \<and> delegates ''courses/edX/DemoX/Demo_Course/enrollment/gender/?start_date=2014-01-01&end_date=2014-01-31''
        (PyStr ''json'') demo_state
        (enrollment (PyStr ''gender'') (PyStr ''2014-01-01'') (PyStr ''2014-01-31'')
           (PyStr ''json'') demo_state)
   \<and> delegates ''courses/edX/DemoX/Demo_Course/enrollment/''
        (PyStr ''csv'') demo_state
        (enrollment PyNone PyNone (PyStr [])  (PyStr ''csv'') demo_state)"
proof -
  have q: "quote_plus ''2014-01-01'' = ''2014-01-01''" "quote_plus ''2014-01-31'' = ''2014-01-31''"
    by (simp_all add: quote_plus_safe always_safe_def)
  have c: "course_id (self demo_state) = ''edX/DemoX/Demo_Course''"
    by (simp add: demo_state_def fresh_def demo_course_def)
  show ?thesis
    using enrollment_query_string [OF demo_init, of "PyStr ''gender''" "PyStr ''2014-01-01''"
        "PyStr ''2014-01-31''" "PyStr ''json''"]
      enrollment_query_string [OF demo_init, of PyNone PyNone "PyStr []" "PyStr ''csv''"]
    by (simp add: demo_init q c)
qed

text \<open>
  C2. When \<^verbatim>\<open>activity_type\<close> is falsy (\<^verbatim>\<open>None\<close> or the empty string), \<^verbatim>\<open>activity\<close>
  raises \<^verbatim>\<open>InvalidRequestError\<close> whatever the other arguments are, and leaves the state
  as it was: no call of \<^verbatim>\<open>client.get\<close> is made. When it is truthy, the outcome is that
  of one call of \<^verbatim>\<open>client.get\<close>, so no error of the method's own is raised.
\<close>

theorem activity_validation:
  assumes "Course_init cl cid = Inr (self st)"
  shows "if truthy activity_type
         then \<exists>path. delegates path data_format st
                        (activity activity_type start_date end_date data_format st)
         else activity activity_type start_date end_date data_format st
                = (Inl (InvalidRequestError ''activity_type cannot be None.''), st)"
proof (cases "truthy activity_type")
  case True
  have "\<exists>path. delegates path data_format st
                 (activity activity_type start_date end_date data_format st)"
    unfolding activity_call [OF init_ascii [OF assms] True]
    by (rule exI) (rule client_get_delegates)
  then show ?thesis
    using True by simp
next
  case False
  then show ?thesis by (simp add: activity_raises)
qed

theorem activity_validation_witness:
  "Course_init test_client (PyStr ''edX/DemoX/Demo_Course'') = Inr (self demo_state)
   \<and> activity PyNone (PyStr ''2014-01-01'') PyNone (PyStr ''json'') demo_state
       = (Inl (InvalidRequestError ''activity_type cannot be None.''), demo_state)
   \<and> activity (PyStr []) PyNone PyNone (PyStr ''csv'') demo_state
       = (Inl (InvalidRequestError ''activity_type cannot be None.''), demo_state)
   \<and> (\<exists>path. delegates path (PyStr ''json'') demo_state
                (activity (PyStr ''any'') PyNone PyNone (PyStr ''json'') demo_state))"
  using activity_validation [OF demo_init, of PyNone "PyStr ''json''" "PyStr ''2014-01-01''" PyNone]
    activity_validation [OF demo_init, of "PyStr []" "PyStr ''csv''" PyNone PyNone]
    activity_validation [OF demo_init, of "PyStr ''any''" "PyStr ''json''" PyNone PyNone]
  by (simp add: demo_init)

text \<open>
  C4. The example of the specification: on the course \<^verbatim>\<open>edX/DemoX/Demo_Course\<close>,
  \<^verbatim>\<open>videos('2014-01-01', '2014-01-01')\<close> asks the client for exactly
  \<^verbatim>\<open>courses/edX/DemoX/Demo_Course/videos/?start_date=2014-01-01&end_date=2014-01-01\<close>,
  for every client, data format and world.
\<close>

theorem videos_example:
  "Course_init cl (PyStr ''edX/DemoX/Demo_Course'')
     = Inr \<lparr>client = cl, course_id = ''edX/DemoX/Demo_Course''\<rparr>
   \<and> delegates ''courses/edX/DemoX/Demo_Course/videos/?start_date=2014-01-01&end_date=2014-01-01''
        data_format (fresh \<lparr>client = cl, course_id = ''edX/DemoX/Demo_Course''\<rparr> w)
        (videos (PyStr ''2014-01-01'') (PyStr ''2014-01-01'') data_format
           (fresh \<lparr>client = cl, course_id = ''edX/DemoX/Demo_Course''\<rparr> w))"
proof -
  have a: "list_all is_ascii ''edX/DemoX/Demo_Course''"
    by (simp add: is_ascii_def)
  then have i: "Course_init cl (PyStr ''edX/DemoX/Demo_Course'')
                 = Inr \<lparr>client = cl, course_id = ''edX/DemoX/Demo_Course''\<rparr>"
    by (simp add: Course_init_def)
  have q: "quote_plus ''2014-01-01'' = ''2014-01-01''"
    by (simp add: quote_plus_safe always_safe_def)
  have "list_all is_ascii
          (course_id (self (fresh \<lparr>client = cl, course_id = ''edX/DemoX/Demo_Course''\<rparr> w)))"
    using a by (simp add: fresh_def)
  from videos_call [OF this, of "PyStr ''2014-01-01''" "PyStr ''2014-01-01''" data_format]
  have "videos (PyStr ''2014-01-01'') (PyStr ''2014-01-01'') data_format
          (fresh \<lparr>client = cl, course_id = ''edX/DemoX/Demo_Course''\<rparr> w)
        = client_get ''courses/edX/DemoX/Demo_Course/videos/?start_date=2014-01-01&end_date=2014-01-01''
            data_format (fresh \<lparr>client = cl, course_id = ''edX/DemoX/Demo_Course''\<rparr> w)"
    by (simp add: date_suffix_def q fresh_def)
  then have "delegates ''courses/edX/DemoX/Demo_Course/videos/?start_date=2014-01-01&end_date=2014-01-01''
        data_format (fresh \<lparr>client = cl, course_id = ''edX/DemoX/Demo_Course''\<rparr> w)
        (videos (PyStr ''2014-01-01'') (PyStr ''2014-01-01'') data_format
           (fresh \<lparr>client = cl, course_id = ''edX/DemoX/Demo_Course''\<rparr> w))"
    by (simp only: client_get_delegates)
  with i show ?thesis
    by (rule conjI)
qed

text \<open>
  C6. For every string \<open>T\<close>, \<^verbatim>\<open>recent_activity(T)\<close> asks the client for exactly
  \<^verbatim>\<open>courses/{course_id}/recent_activity/?activity_type=T\<close>: the parameter is always
  there, and the method has no date to add.
\<close>

theorem recent_activity_path:
  assumes "Course_init cl cid = Inr (self st)"
  shows "delegates
           (''courses/'' @ course_id (self st) @ ''/recent_activity/?activity_type='' @ T)
           data_format st (recent_activity (PyStr T) data_format st)"
  unfolding recent_activity_call [OF init_ascii [OF assms]] py_str.simps
  by (rule client_get_warn_delegates)

theorem recent_activity_path_witness:
  "Course_init test_client (PyStr ''edX/DemoX/Demo_Course'') = Inr (self demo_state)
   \<and> delegates ''courses/edX/DemoX/Demo_Course/recent_activity/?activity_type=played_video''
        (PyStr ''json'') demo_state
        (recent_activity (PyStr ''played_video'') (PyStr ''json'') demo_state)"
proof -
  have c: "course_id (self demo_state) = ''edX/DemoX/Demo_Course''"
    by (simp add: demo_state_def fresh_def demo_course_def)
  show ?thesis
    using recent_activity_path [OF demo_init, of "''played_video''" "PyStr ''json''"]
    by (simp add: demo_init c)
qed

text \<open>
  C9. \<^verbatim>\<open>recent_activity\<close> does not validate \<^verbatim>\<open>activity_type\<close>: with \<^verbatim>\<open>None\<close> and with
  the empty string it still calls \<^verbatim>\<open>client.get\<close>, and the value is rendered as it is,
  \<^verbatim>\<open>activity_type=None\<close> and \<^verbatim>\<open>activity_type=\<close>.
\<close>

theorem recent_activity_no_validation:
  assumes "Course_init cl cid = Inr (self st)"
  shows "delegates (''courses/'' @ course_id (self st) @ ''/recent_activity/?activity_type=None'')
           data_format st (recent_activity PyNone data_format st)
         \<and> delegates (''courses/'' @ course_id (self st) @ ''/recent_activity/?activity_type='')
             data_format st (recent_activity (PyStr []) data_format st)"
proof
  show "delegates (''courses/'' @ course_id (self st) @ ''/recent_activity/?activity_type=None'')
          data_format st (recent_activity PyNone data_format st)"
    unfolding recent_activity_call [OF init_ascii [OF assms]]
    using client_get_warn_delegates [of "''courses/'' @ course_id (self st)
            @ ''/recent_activity/?activity_type=None''" data_format st]
    by simp
  show "delegates (''courses/'' @ course_id (self st) @ ''/recent_activity/?activity_type='')
          data_format st (recent_activity (PyStr []) data_format st)"
    unfolding recent_activity_call [OF init_ascii [OF assms]]
    using client_get_warn_delegates [of "''courses/'' @ course_id (self st)
            @ ''/recent_activity/?activity_type=''" data_format st]
    by simp
qed

theorem recent_activity_no_validation_witness:
  "Course_init test_client (PyStr ''edX/DemoX/Demo_Course'') = Inr (self demo_state)
   \<and> delegates ''courses/edX/DemoX/Demo_Course/recent_activity/?activity_type=None''
        (PyStr ''json'') demo_state (recent_activity PyNone (PyStr ''json'') demo_state)
   \<and> delegates ''courses/edX/DemoX/Demo_Course/recent_activity/?activity_type=''
        (PyStr ''json'') demo_state (recent_activity (PyStr []) (PyStr ''json'') demo_state)"
proof -
  have c: "course_id (self demo_state) = ''edX/DemoX/Demo_Course''"
    by (simp add: demo_state_def fresh_def demo_course_def)
  show ?thesis
    using recent_activity_no_validation [OF demo_init, of "PyStr ''json''"]
    by (simp add: demo_init c)
qed

lemma quote_plus_reserved:
  "quote_plus ''&'' = ''%26''" "quote_plus ''='' = ''%3D''" "quote_plus ''~'' = ''%7E''"
  by (simp_all add: quote_plus_def quote_def safe_map_def always_safe_def hex_digit_def)

lemma demo_course_id: "course_id (self demo_state) = ''edX/DemoX/Demo_Course''"
  by (simp add: demo_state_def fresh_def demo_course_def)

lemma demo_ascii: "list_all is_ascii (course_id (self demo_state))"
  by (simp add: demo_course_id is_ascii_def)

lemma calls_client_get: "calls (snd (client_get path fmt st)) = calls st @ [(path, fmt)]"
  by (simp add: client_get_def split: prod.split)

lemma demo_calls: "calls demo_state = []"
  by (simp add: demo_state_def fresh_def)

lemma self_client_get: "self (snd (client_get path fmt st)) = self st"
  by (simp add: client_get_def split: prod.split)

lemma delegates_under_courses:
  assumes "out = client_get (''courses/'' @ s @ CHR ''/'' # rest) fmt st' "
    and "delegates (''courses/'' @ s @ CHR ''/'' # rest) fmt st (client_get (''courses/'' @ s @ CHR ''/'' # rest) fmt st')"
  shows "\<exists>rest. delegates (''courses/'' @ s @ ''/'' @ rest) fmt st out"
proof -
  have "delegates (''courses/'' @ s @ ''/'' @ rest) fmt st out"
    using assms by simp
  then show ?thesis ..
qed

lemma enrollment_verbatim:
  assumes "list_all is_ascii (course_id (self st))"
  shows "\<exists>rest. delegates (''courses/'' @ course_id (self st) @ ''/'' @ rest) fmt st
                  (enrollment dm sd ed fmt st)"
  by (rule delegates_under_courses [OF _ client_get_delegates])
     (simp add: enrollment_call [OF assms])

lemma activity_verbatim:
  assumes "list_all is_ascii (course_id (self st))" and "truthy t"
  shows "\<exists>rest. delegates (''courses/'' @ course_id (self st) @ ''/'' @ rest) fmt st
                  (activity t sd ed fmt st)"
  by (rule delegates_under_courses [OF _ client_get_delegates])
     (simp add: activity_call [OF assms])

lemma recent_activity_verbatim:
  assumes "list_all is_ascii (course_id (self st))"
  shows "\<exists>rest. delegates (''courses/'' @ course_id (self st) @ ''/'' @ rest) fmt st
                  (recent_activity t fmt st)"
  by (rule delegates_under_courses [OF _ client_get_warn_delegates])
     (simp add: recent_activity_call [OF assms])

lemma problems_verbatim:
  assumes "list_all is_ascii (course_id (self st))"
  shows "\<exists>rest. delegates (''courses/'' @ course_id (self st) @ ''/'' @ rest) fmt st
                  (problems fmt st)"
  by (rule delegates_under_courses [OF _ client_get_delegates])
     (simp add: problems_call [OF assms])

lemma video_settings_verbatim:
  assumes "list_all is_ascii (course_id (self st))"
  shows "\<exists>rest. delegates (''courses/'' @ course_id (self st) @ ''/'' @ rest) fmt st
                  (video_settings fmt st)"
  by (rule delegates_under_courses [OF _ client_get_delegates])
     (simp add: video_settings_call [OF assms])

lemma video_summary_verbatim:
  assumes "list_all is_ascii (course_id (self st))"
  shows "\<exists>rest. delegates (''courses/'' @ course_id (self st) @ ''/'' @ rest) fmt st
                  (video_summary vid sd ed fmt st)"
  by (rule delegates_under_courses [OF _ client_get_delegates])
     (simp add: video_summary_call [OF assms])

lemma videos_verbatim:
  assumes "list_all is_ascii (course_id (self st))"
  shows "\<exists>rest. delegates (''courses/'' @ course_id (self st) @ ''/'' @ rest) fmt st
                  (videos sd ed fmt st)"
  by (rule delegates_under_courses [OF _ client_get_delegates])
     (simp add: videos_call [OF assms])

lemma video_seek_times_verbatim:
  assumes "list_all is_ascii (course_id (self st))"
  shows "\<exists>rest. delegates (''courses/'' @ course_id (self st) @ ''/'' @ rest) fmt st
                  (video_seek_times vid sd ed fmt st)"
  by (rule delegates_under_courses [OF _ client_get_delegates])
     (simp add: video_seek_times_call [OF assms])

lemma on_campus_data_verbatim:
  assumes "list_all is_ascii (course_id (self st))"
  shows "\<exists>rest. delegates (''courses/'' @ course_id (self st) @ ''/'' @ rest) fmt st
                  (on_campus_data sd ed fmt st)"
  by (rule delegates_under_courses [OF _ client_get_delegates])
     (simp add: on_campus_data_call [OF assms])

lemmas verbatim =
  enrollment_verbatim activity_verbatim recent_activity_verbatim problems_verbatim
  video_settings_verbatim video_summary_verbatim videos_verbatim video_seek_times_verbatim
  on_campus_data_verbatim

text \<open>
  C3. For every non-empty \<open>T\<close> and every combination of the two dates, \<^verbatim>\<open>activity(T)\<close>
  asks the client for \<^verbatim>\<open>courses/{course_id}/activity/?\<close> followed by a query string
  that is the \<^verbatim>\<open>&\<close>-join of exactly these fragments: \<^verbatim>\<open>activity_type=T\<close>, always, and
  \<^verbatim>\<open>start_date=D\<close> and \<^verbatim>\<open>end_date=D\<close>, each exactly when it is supplied. The values are
  written as \<^verbatim>\<open>urlencode\<close> writes them. The property is about which fragments there
  are, not about their order; \<open>activity_call\<close> gives the order of the items of the
  dictionary, in which \<^verbatim>\<open>activity_type\<close> comes last.
\<close>

theorem activity_query_string:
  assumes "Course_init cl cid = Inr (self st)" and "T \<noteq> []"
  shows "\<exists>frags.
           delegates (''courses/'' @ course_id (self st) @ ''/activity/?'' @ join ''&'' frags)
             data_format st (activity (PyStr T) start_date end_date data_format st)
           \<and> mset frags =
               mset ([''activity_type='' @ quote_plus T]
                     @ (if truthy start_date
                        then [''start_date='' @ quote_plus (py_str start_date)] else [])
                     @ (if truthy end_date
                        then [''end_date='' @ quote_plus (py_str end_date)] else []))"
proof -
  have t: "truthy (PyStr T)"
    using assms(2) by simp
  let ?frags = "(if truthy start_date
                 then [''start_date='' @ quote_plus (py_str start_date)] else [])
                @ (if truthy end_date
                   then [''end_date='' @ quote_plus (py_str end_date)] else [])
                @ [''activity_type='' @ quote_plus (py_str (PyStr T))]"
  have "delegates (''courses/'' @ course_id (self st) @ ''/activity/?'' @ join ''&'' ?frags)
          data_format st (activity (PyStr T) start_date end_date data_format st)"
    unfolding activity_call [OF init_ascii [OF assms(1)] t]
    by (rule client_get_delegates)
  moreover have "mset ?frags =
      mset ([''activity_type='' @ quote_plus T]
            @ (if truthy start_date
               then [''start_date='' @ quote_plus (py_str start_date)] else [])
            @ (if truthy end_date
               then [''end_date='' @ quote_plus (py_str end_date)] else []))"
    by simp
  ultimately show ?thesis
    by blast
qed

theorem activity_query_string_witness:
  "Course_init test_client (PyStr ''edX/DemoX/Demo_Course'') = Inr (self demo_state)
   \<and> ''any'' \<noteq> []
   \<and> (\<exists>frags.
         delegates (''courses/edX/DemoX/Demo_Course/activity/?'' @ join ''&'' frags)
           (PyStr ''json'') demo_state
           (activity (PyStr ''any'') (PyStr ''2014-01-01'') PyNone (PyStr ''json'') demo_state)
         \<and> mset frags = mset [''activity_type=any'', ''start_date=2014-01-01''])"
proof -
  have n: "''any'' \<noteq> []"
    by simp
  have q: "quote_plus ''2014-01-01'' = ''2014-01-01''" "quote_plus ''any'' = ''any''"
    by (simp_all add: quote_plus_safe always_safe_def)
  have c: "course_id (self demo_state) = ''edX/DemoX/Demo_Course''"
    by (simp add: demo_state_def fresh_def demo_course_def)
  show ?thesis
    using activity_query_string [OF demo_init n, of "PyStr ''json''" "PyStr ''2014-01-01''" PyNone]
    by (simp add: demo_init q c)
qed

text \<open>
  C5, as amended. The course id is embedded into the path as it is, with no URL encoding:
  on an instance built from the string \<open>s\<close>, every method asks the client for a path
  that begins with \<^verbatim>\<open>courses/\<close>, then \<open>s\<close> itself, then a slash. So the path is URL-safe
  when the caller supplies a URL-safe course id, and only then.
\<close>

theorem course_id_embedded_verbatim:
  assumes "Course_init cl (PyStr s) = Inr (self st)" and "truthy activity_type"
  shows "(\<exists>rest. delegates (''courses/'' @ s @ ''/'' @ rest) data_format st
                   (enrollment demographic start_date end_date data_format st))
       \<and> (\<exists>rest. delegates (''courses/'' @ s @ ''/'' @ rest) data_format st
                   (activity activity_type start_date end_date data_format st))
       \<and> (\<exists>rest. delegates (''courses/'' @ s @ ''/'' @ rest) data_format st
                   (recent_activity recent_type data_format st))
       \<and> (\<exists>rest. delegates (''courses/'' @ s @ ''/'' @ rest) data_format st
                   (problems data_format st))
       \<and> (\<exists>rest. delegates (''courses/'' @ s @ ''/'' @ rest) data_format st
                   (video_settings data_format st))
       \<and> (\<exists>rest. delegates (''courses/'' @ s @ ''/'' @ rest) data_format st
                   (video_summary video_id start_date end_date data_format st))
       \<and> (\<exists>rest. delegates (''courses/'' @ s @ ''/'' @ rest) data_format st
                   (videos start_date end_date data_format st))
       \<and> (\<exists>rest. delegates (''courses/'' @ s @ ''/'' @ rest) data_format st
                   (video_seek_times video_id start_date end_date data_format st))
       \<and> (\<exists>rest. delegates (''courses/'' @ s @ ''/'' @ rest) data_format st
                   (on_campus_data start_date end_date data_format st))"
proof -
  have a: "list_all is_ascii (course_id (self st))"
    using assms(1) by (rule init_ascii)
  have c: "course_id (self st) = s"
    using assms(1) by (rule init_course_id)
  show ?thesis
    using verbatim [OF a] assms(2) unfolding c by (intro conjI) blast+
qed

theorem course_id_embedded_verbatim_witness:
  "Course_init test_client (PyStr ''edX/DemoX/Demo_Course'') = Inr (self demo_state)
   \<and> truthy (PyStr ''any'')
   \<and> (\<exists>rest. delegates (''courses/'' @ ''edX/DemoX/Demo_Course'' @ ''/'' @ rest) (PyStr ''json'')
                demo_state (problems (PyStr ''json'') demo_state))"
proof -
  have t: "truthy (PyStr ''any'')"
    by simp
  show ?thesis
    using course_id_embedded_verbatim [OF demo_init t, of "PyStr ''json''"] demo_init t
    by blast
qed

text \<open>
  Against C5 as stated (the course id is URL-encoded before it is embedded): the course
  id \<^verbatim>\<open>x?y\<close> is accepted by the constructor and reaches the client with its question
  mark, where the URL encoding of it is \<^verbatim>\<open>x%3Fy\<close>.
\<close>

theorem course_id_not_encoded:
  "Course_init test_client (PyStr ''x?y'') = Inr \<lparr>client = test_client, course_id = ''x?y''\<rparr>
   \<and> calls (snd (enrollment PyNone PyNone PyNone (PyStr ''json'')
                    (fresh \<lparr>client = test_client, course_id = ''x?y''\<rparr> 0)))
       = [(''courses/x?y/enrollment/'', PyStr ''json'')]
   \<and> quote ''x?y'' ''/'' = ''x%3Fy''"
proof -
  have a: "list_all is_ascii ''x?y''"
    by (simp add: is_ascii_def)
  then have "list_all is_ascii
          (course_id (self (fresh \<lparr>client = test_client, course_id = ''x?y''\<rparr> 0)))"
    by (simp add: fresh_def)
  from enrollment_call [OF this, of PyNone PyNone PyNone "PyStr ''json''"]
  have "calls (snd (enrollment PyNone PyNone PyNone (PyStr ''json'')
                    (fresh \<lparr>client = test_client, course_id = ''x?y''\<rparr> 0)))
       = [(''courses/x?y/enrollment/'', PyStr ''json'')]"
    by (simp add: calls_client_get date_suffix_def fresh_def)
  moreover have "quote ''x?y'' ''/'' = ''x%3Fy''"
    by (simp add: quote_def safe_map_def always_safe_def hex_digit_def)
  moreover have "Course_init test_client (PyStr ''x?y'')
                 = Inr \<lparr>client = test_client, course_id = ''x?y''\<rparr>"
    using a by (simp add: Course_init_def)
  ultimately show ?thesis
    by blast
qed

text \<open>
  C7. On an instance built by the constructor, each of the nine methods, \<^verbatim>\<open>activity\<close>
  with a truthy \<^verbatim>\<open>activity_type\<close>, has the outcome of one call of \<^verbatim>\<open>client.get\<close>: the
  log of calls grows by exactly one entry, the world is the one this call leaves, and
  what the method returns or raises is what the call returned or raised, whatever the
  client is.
\<close>

theorem methods_delegate_once:
  assumes "Course_init cl cid = Inr (self st)" and "truthy activity_type"
  shows "(\<exists>path. delegates path data_format st
                   (enrollment demographic start_date end_date data_format st))
       \<and> (\<exists>path. delegates path data_format st
                   (activity activity_type start_date end_date data_format st))
       \<and> (\<exists>path. delegates path data_format st
                   (recent_activity recent_type data_format st))
       \<and> (\<exists>path. delegates path data_format st (problems data_format st))
       \<and> (\<exists>path. delegates path data_format st (video_settings data_format st))
       \<and> (\<exists>path. delegates path data_format st
                   (video_summary video_id start_date end_date data_format st))
       \<and> (\<exists>path. delegates path data_format st
                   (videos start_date end_date data_format st))
       \<and> (\<exists>path. delegates path data_format st
                   (video_seek_times video_id start_date end_date data_format st))
       \<and> (\<exists>path. delegates path data_format st
                   (on_campus_data start_date end_date data_format st))"
proof -
  have a: "list_all is_ascii (course_id (self st))"
    using assms(1) by (rule init_ascii)
  show ?thesis
  proof (intro conjI)
    show "\<exists>path. delegates path data_format st
                  (enrollment demographic start_date end_date data_format st)"
      using enrollment_verbatim [OF a] by blast
    show "\<exists>path. delegates path data_format st
                  (activity activity_type start_date end_date data_format st)"
      using activity_verbatim [OF a assms(2)] by blast
    show "\<exists>path. delegates path data_format st
                  (recent_activity recent_type data_format st)"
      using recent_activity_verbatim [OF a] by blast
    show "\<exists>path. delegates path data_format st (problems data_format st)"
      using problems_verbatim [OF a] by blast
    show "\<exists>path. delegates path data_format st (video_settings data_format st)"
      using video_settings_verbatim [OF a] by blast
    show "\<exists>path. delegates path data_format st
                  (video_summary video_id start_date end_date data_format st)"
      using video_summary_verbatim [OF a] by blast
    show "\<exists>path. delegates path data_format st
                  (videos start_date end_date data_format st)"
      using videos_verbatim [OF a] by blast
    show "\<exists>path. delegates path data_format st
                  (video_seek_times video_id start_date end_date data_format st)"
      using video_seek_times_verbatim [OF a] by blast
    show "\<exists>path. delegates path data_format st
                  (on_campus_data start_date end_date data_format st)"
      using on_campus_data_verbatim [OF a] by blast
  qed
qed

theorem methods_delegate_once_witness:
  "Course_init test_client (PyStr ''edX/DemoX/Demo_Course'') = Inr (self demo_state)
   \<and> truthy (PyStr ''any'')
   \<and> (\<exists>path. delegates path (PyStr ''json'') demo_state
                (activity (PyStr ''any'') PyNone PyNone (PyStr ''json'') demo_state))
   \<and> (\<exists>path. delegates path (PyStr ''csv'') demo_state
                (video_seek_times (PyStr ''0fac49ba'') PyNone PyNone (PyStr ''csv'') demo_state))"
proof -
  have t: "truthy (PyStr ''any'')"
    by simp
  show ?thesis
    using methods_delegate_once [OF demo_init t, where data_format = "PyStr ''json''"
          and start_date = PyNone and end_date = PyNone]
      methods_delegate_once [OF demo_init t, where data_format = "PyStr ''csv''"
          and start_date = PyNone and end_date = PyNone and video_id = "PyStr ''0fac49ba''"]
      demo_init t
    by blast
qed

text \<open>
  C8. No method changes the instance: after every call, whether it returned or raised,
  and from whatever state it started, \<^verbatim>\<open>self\<close> (its client and its course id) is what it
  was before the call, so that the next call finds the instance as the constructor left
  it.
\<close>

theorem instance_unchanged:
  "self (snd (enrollment demographic start_date end_date data_format st)) = self st
   \<and> self (snd (activity activity_type start_date end_date data_format st)) = self st
   \<and> self (snd (recent_activity activity_type data_format st)) = self st
   \<and> self (snd (problems data_format st)) = self st
   \<and> self (snd (video_settings data_format st)) = self st
   \<and> self (snd (video_summary video_id start_date end_date data_format st)) = self st
   \<and> self (snd (videos start_date end_date data_format st)) = self st
   \<and> self (snd (video_seek_times video_id start_date end_date data_format st)) = self st
   \<and> self (snd (on_campus_data start_date end_date data_format st)) = self st"
proof (intro conjI)
  show "self (snd (enrollment demographic start_date end_date data_format st)) = self st"
    by (simp add: enrollment_def Let_def self_client_get split: sum.split)
  show "self (snd (activity activity_type start_date end_date data_format st)) = self st"
    by (simp add: activity_def Let_def self_client_get split: sum.split)
  show "self (snd (recent_activity activity_type data_format st)) = self st"
    by (simp add: recent_activity_def Let_def self_client_get warn_def split: sum.split)
  show "self (snd (problems data_format st)) = self st"
    by (simp add: problems_def Let_def self_client_get split: sum.split)
  show "self (snd (video_settings data_format st)) = self st"
    by (simp add: video_settings_def Let_def self_client_get split: sum.split)
  show "self (snd (video_summary video_id start_date end_date data_format st)) = self st"
    by (simp add: video_summary_def Let_def self_client_get split: sum.split)
  show "self (snd (videos start_date end_date data_format st)) = self st"
    by (simp add: videos_def Let_def self_client_get split: sum.split)
  show "self (snd (video_seek_times video_id start_date end_date data_format st)) = self st"
    by (simp add: video_seek_times_def Let_def self_client_get split: sum.split)
  show "self (snd (on_campus_data start_date end_date data_format st)) = self st"
    by (simp add: on_campus_data_def Let_def self_client_get split: sum.split)
qed

text \<open>
  C10, as amended. \<^verbatim>\<open>activity\<close> writes \<^verbatim>\<open>activity_type\<close> through \<^verbatim>\<open>urlencode\<close>,
  \<^verbatim>\<open>recent_activity\<close> interpolates it as it is. For every non-empty \<open>T\<close> made of the
  characters that \<^verbatim>\<open>urllib.quote\<close> leaves alone (ASCII letters, digits, underscore,
  period, hyphen) both methods send the same fragment \<^verbatim>\<open>activity_type=T\<close>, whatever the
  dates; for \<^verbatim>\<open>&\<close> and for \<^verbatim>\<open>=\<close> the fragments differ, \<^verbatim>\<open>activity_type=%26\<close>
  against \<^verbatim>\<open>activity_type=&\<close> and \<^verbatim>\<open>activity_type=%3D\<close> against \<^verbatim>\<open>activity_type==\<close>.
\<close>

theorem activity_type_fragment:
  assumes "Course_init cl cid = Inr (self st)"
    and "T \<noteq> []"
    and "list_all (\<lambda>c. c \<in> set always_safe) T"
  shows "(\<exists>frags.
            delegates (''courses/'' @ course_id (self st) @ ''/activity/?'' @ join ''&'' frags)
              data_format st (activity (PyStr T) start_date end_date data_format st)
            \<and> ''activity_type='' @ T \<in> set frags)
       \<and> delegates (''courses/'' @ course_id (self st) @ ''/recent_activity/?''
                      @ ''activity_type='' @ T)
           data_format st (recent_activity (PyStr T) data_format st)
       \<and> delegates (''courses/'' @ course_id (self st) @ ''/activity/?'' @ ''activity_type=%26'')
           data_format st (activity (PyStr ''&'') PyNone PyNone data_format st)
       \<and> delegates (''courses/'' @ course_id (self st) @ ''/recent_activity/?''
                      @ ''activity_type=&'')
           data_format st (recent_activity (PyStr ''&'') data_format st)
       \<and> delegates (''courses/'' @ course_id (self st) @ ''/activity/?'' @ ''activity_type=%3D'')
           data_format st (activity (PyStr ''='') PyNone PyNone data_format st)
       \<and> delegates (''courses/'' @ course_id (self st) @ ''/recent_activity/?''
                      @ ''activity_type=='')
           data_format st (recent_activity (PyStr ''='') data_format st)"
proof -
  have a: "list_all is_ascii (course_id (self st))"
    using assms(1) by (rule init_ascii)
  have t: "truthy (PyStr T)"
    using assms(2) by simp
  have q: "quote_plus T = T"
    using assms(3) by (rule quote_plus_safe)
  let ?frags = "(if truthy start_date
                 then [''start_date='' @ quote_plus (py_str start_date)] else [])
                @ (if truthy end_date
                   then [''end_date='' @ quote_plus (py_str end_date)] else [])
                @ [''activity_type='' @ quote_plus (py_str (PyStr T))]"
  have "delegates (''courses/'' @ course_id (self st) @ ''/activity/?'' @ join ''&'' ?frags)
          data_format st (activity (PyStr T) start_date end_date data_format st)"
    unfolding activity_call [OF a t]
    by (rule client_get_delegates)
  moreover have "''activity_type='' @ T \<in> set ?frags"
    by (simp add: q)
  ultimately have 1: "\<exists>frags.
            delegates (''courses/'' @ course_id (self st) @ ''/activity/?'' @ join ''&'' frags)
              data_format st (activity (PyStr T) start_date end_date data_format st)
            \<and> ''activity_type='' @ T \<in> set frags"
    by blast
  have r: "\<And>t. delegates (''courses/'' @ course_id (self st) @ ''/recent_activity/?''
                      @ ''activity_type='' @ t)
           data_format st (recent_activity (PyStr t) data_format st)"
    using client_get_warn_delegates
    by (simp add: recent_activity_call [OF a])
  have 2: "delegates (''courses/'' @ course_id (self st) @ ''/recent_activity/?''
                      @ ''activity_type='' @ T)
           data_format st (recent_activity (PyStr T) data_format st)"
    by (rule r)
  have 3: "delegates (''courses/'' @ course_id (self st) @ ''/activity/?'' @ ''activity_type=%26'')
           data_format st (activity (PyStr ''&'') PyNone PyNone data_format st)"
    using client_get_delegates
    by (simp add: activity_call [OF a] quote_plus_reserved)
  have 4: "delegates (''courses/'' @ course_id (self st) @ ''/recent_activity/?''
                      @ ''activity_type=&'')
           data_format st (recent_activity (PyStr ''&'') data_format st)"
    using r [of "''&''"] by simp
  have 5: "delegates (''courses/'' @ course_id (self st) @ ''/activity/?'' @ ''activity_type=%3D'')
           data_format st (activity (PyStr ''='') PyNone PyNone data_format st)"
    using client_get_delegates
    by (simp add: activity_call [OF a] quote_plus_reserved)
  have 6: "delegates (''courses/'' @ course_id (self st) @ ''/recent_activity/?''
                      @ ''activity_type=='')
           data_format st (recent_activity (PyStr ''='') data_format st)"
    using r [of "''=''"] by simp
  from 1 2 3 4 5 6 show ?thesis
    by (intro conjI)
qed

theorem activity_type_fragment_witness:
  "Course_init test_client (PyStr ''edX/DemoX/Demo_Course'') = Inr (self demo_state)
   \<and> ''played_video'' \<noteq> []
   \<and> list_all (\<lambda>c. c \<in> set always_safe) ''played_video''
   \<and> (\<exists>frags.
         delegates (''courses/edX/DemoX/Demo_Course/activity/?'' @ join ''&'' frags)
           (PyStr ''json'') demo_state
           (activity (PyStr ''played_video'') PyNone (PyStr ''2014-01-31'') (PyStr ''json'')
              demo_state)
         \<and> ''activity_type=played_video'' \<in> set frags)
   \<and> delegates ''courses/edX/DemoX/Demo_Course/recent_activity/?activity_type=played_video''
        (PyStr ''json'') demo_state
        (recent_activity (PyStr ''played_video'') (PyStr ''json'') demo_state)"
proof -
  have n: "''played_video'' \<noteq> []"
    by simp
  have s: "list_all (\<lambda>c. c \<in> set always_safe) ''played_video''"
    by (simp add: always_safe_def)
  show ?thesis
    using activity_type_fragment [OF demo_init n s, of "PyStr ''json''" PyNone
        "PyStr ''2014-01-31''"]
    by (simp add: demo_init always_safe_def demo_course_id)
qed

text \<open>
  Against C10 as stated (the same fragment for every \<^verbatim>\<open>activity_type\<close> made of
  unreserved characters only): the tilde is an unreserved character, and Python 2's
  \<^verbatim>\<open>urllib.quote\<close> escapes it, so that \<^verbatim>\<open>activity\<close> sends \<^verbatim>\<open>activity_type=%7E\<close> where
  \<^verbatim>\<open>recent_activity\<close> sends \<^verbatim>\<open>activity_type=~\<close>; and on the empty string, which has no
  reserved character either, \<^verbatim>\<open>activity\<close> sends nothing at all.
\<close>

theorem tilde_is_encoded:
  "list_all (\<lambda>c. c \<in> set unreserved) ''~''
   \<and> calls (snd (activity (PyStr ''~'') PyNone PyNone (PyStr ''json'') demo_state))
       = [(''courses/edX/DemoX/Demo_Course/activity/?activity_type=%7E'', PyStr ''json'')]
   \<and> calls (snd (recent_activity (PyStr ''~'') (PyStr ''json'') demo_state))
       = [(''courses/edX/DemoX/Demo_Course/recent_activity/?activity_type=~'', PyStr ''json'')]
   \<and> list_all (\<lambda>c. c \<in> set unreserved) []
   \<and> activity (PyStr []) PyNone PyNone (PyStr ''json'') demo_state
       = (Inl (InvalidRequestError ''activity_type cannot be None.''), demo_state)"
proof -
  have t: "truthy (PyStr ''~'')"
    by simp
  have "list_all (\<lambda>c. c \<in> set unreserved) ''~''"
    by (simp add: unreserved_def)
  moreover
  from activity_call [OF demo_ascii t, of PyNone PyNone "PyStr ''json''"]
  have "calls (snd (activity (PyStr ''~'') PyNone PyNone (PyStr ''json'') demo_state))
       = [(''courses/edX/DemoX/Demo_Course/activity/?activity_type=%7E'', PyStr ''json'')]"
    by (simp add: calls_client_get quote_plus_reserved demo_course_id demo_calls)
  moreover
  from recent_activity_call [OF demo_ascii, of "PyStr ''~''" "PyStr ''json''"]
  have "calls (snd (recent_activity (PyStr ''~'') (PyStr ''json'') demo_state))
       = [(''courses/edX/DemoX/Demo_Course/recent_activity/?activity_type=~'', PyStr ''json'')]"
    by (simp add: calls_client_get warn_def demo_course_id demo_calls)
  moreover
  have "activity (PyStr []) PyNone PyNone (PyStr ''json'') demo_state
       = (Inl (InvalidRequestError ''activity_type cannot be None.''), demo_state)"
    by (simp add: activity_raises)
  ultimately show ?thesis
    by simp
qed

end
